theory Spec2Isabelle
  imports Complex_Main "HOL-Library.AList"
begin

section \<open>Python values used by the Pub/Sub data feed\<close>

text \<open>
  The development embeds \<^verbatim>\<open>src/containers/paper-trader/pubsub_data_feed.py\<close>:
  the class \<^verbatim>\<open>PubSubDataFeed\<close> (one feed per symbol) and the class
  \<^verbatim>\<open>MultiSymbolPubSubManager\<close>.

  Every exception the source can meet is a value of \<open>exn\<close>; all of them are subclasses of
  Python's \<^verbatim>\<open>Exception\<close>, so an \<^verbatim>\<open>except Exception\<close> clause catches each of them.
  A function that may raise returns \<open>exn + 'a\<close> (\<open>Inl\<close> the exception); a method that may
  raise after it has changed the object returns the changed object next to that sum.
  Python floats are idealised as reals: rounding, infinities and NaN are not modelled.
\<close>

datatype exn =
    AttributeError | IndexError | KeyError | OverflowError | TypeError | ValueError
  | LibraryError string

text \<open>What \<^verbatim>\<open>json.loads\<close> returns.  A JSON number without fraction or exponent is a Python
  \<^verbatim>\<open>int\<close> (\<open>JInt\<close>), any other number a \<^verbatim>\<open>float\<close> (\<open>JNum\<close>).  A JSON object is a Python
  dict, kept as an association list read with \<open>map_of\<close>.\<close>

datatype json =
    JNull | JBool bool | JInt int | JNum real | JStr string | JArr "json list"
  | JObj "(string \<times> json) list"

type_synonym pydict = "(string \<times> json) list"

definition has_key :: "pydict \<Rightarrow> string \<Rightarrow> bool" where
  \<comment> \<open>\<^verbatim>\<open>field in message_data\<close>\<close>
  "has_key d k = (map_of d k \<noteq> None)"

definition dict_get :: "pydict \<Rightarrow> string \<Rightarrow> json" where
  \<comment> \<open>\<^verbatim>\<open>message_data.get(k)\<close>: \<^verbatim>\<open>None\<close> when the key is absent\<close>
  "dict_get d k = (case map_of d k of None \<Rightarrow> JNull | Some v \<Rightarrow> v)"

definition dict_get_default :: "pydict \<Rightarrow> string \<Rightarrow> json \<Rightarrow> json" where
  \<comment> \<open>\<^verbatim>\<open>message_data.get(k, default)\<close>\<close>
  "dict_get_default d k dflt = (case map_of d k of None \<Rightarrow> dflt | Some v \<Rightarrow> v)"

definition dict_item :: "pydict \<Rightarrow> string \<Rightarrow> exn + json" where
  \<comment> \<open>\<^verbatim>\<open>message_data[k]\<close>\<close>
  "dict_item d k = (case map_of d k of None \<Rightarrow> Inl KeyError | Some v \<Rightarrow> Inr v)"

definition bind_exn :: "exn + 'a \<Rightarrow> ('a \<Rightarrow> exn + 'b) \<Rightarrow> exn + 'b" where
  \<comment> \<open>sequencing: the first exception raised ends the computation\<close>
  "bind_exn m f = (case m of Inl e \<Rightarrow> Inl e | Inr v \<Rightarrow> f v)"

text \<open>
  The library functions the feed calls and whose code is not part of the repository
  (\<^verbatim>\<open>datetime\<close>, \<^verbatim>\<open>float\<close> on a string, backtrader's \<^verbatim>\<open>date2num\<close>) are parameters of the
  model.  The type \<open>'dt\<close> is the library's \<^verbatim>\<open>datetime\<close>.
\<close>

record 'dt pylib =
  fromisoformat :: "string \<Rightarrow> exn + 'dt"
  fromtimestamp :: "json \<Rightarrow> exn + 'dt"
  float_of_str :: "string \<Rightarrow> exn + real"
  date2num :: "'dt \<Rightarrow> exn + real"
  isoformat :: "'dt \<Rightarrow> string"

text \<open>An \<^verbatim>\<open>int\<close> converts to a \<^verbatim>\<open>float\<close> when it rounds to a finite double, that is when
  its magnitude is below \<open>2 ^ 1024 - 2 ^ 970\<close>; beyond, \<^verbatim>\<open>float\<close> raises \<^verbatim>\<open>OverflowError\<close>.\<close>

definition float_limit :: int where
  "float_limit = 2 ^ 1024 - 2 ^ 970"

definition py_float :: "'dt pylib \<Rightarrow> json \<Rightarrow> exn + real" where
  \<comment> \<open>\<^verbatim>\<open>float(v)\<close> on a value decoded from JSON\<close>
  "py_float L v =
     (case v of
        JNum r \<Rightarrow> Inr r
      | JInt n \<Rightarrow>
          (if - float_limit < n \<and> n < float_limit then Inr (real_of_int n)
           else Inl OverflowError)
      | JBool b \<Rightarrow> Inr (if b then 1 else 0)
      | JStr s \<Rightarrow> float_of_str L s
      | JNull \<Rightarrow> Inl TypeError
      | JArr _ \<Rightarrow> Inl TypeError
      | JObj _ \<Rightarrow> Inl TypeError)"

definition replace_Z :: "string \<Rightarrow> string" where
  \<comment> \<open>\<^verbatim>\<open>timestamp_str.replace('Z', '+00:00')\<close>\<close>
  "replace_Z s = concat (map (\<lambda>c. if c = CHR ''Z'' then ''+00:00'' else [c]) s)"

section \<open>The feed object\<close>

datatype timeframe = Ticks | MicroSeconds | Seconds | Minutes | Days | Weeks | Months | Years

record feed_params =
  project_id :: string
  subscription_name :: string
  symbol :: string
  timeframe :: timeframe
  compression :: nat
  feed_name :: string
  max_buffer_size :: nat
  qcheck :: real
  reconnect_timeout :: real
  max_reconnect_attempts :: nat

definition default_params :: feed_params where
  "default_params =
     \<lparr>project_id = '''', subscription_name = '''', symbol = '''', timeframe = Minutes,
      compression = 1, feed_name = '''', max_buffer_size = 1000, qcheck = 1 / 2,
      reconnect_timeout = 5, max_reconnect_attempts = 10\<rparr>"

text \<open>The dict \<^verbatim>\<open>bar_data\<close> built by \<^verbatim>\<open>_process_market_data_message\<close>.\<close>

record 'dt bar =
  bar_datetime :: 'dt
  bar_open :: real
  bar_high :: real
  bar_low :: real
  bar_close :: real
  bar_volume :: real
  bar_vwap :: real

text \<open>Slot 0 of the backtrader lines of the feed; \<open>None\<close> is a slot never written.\<close>

record lines =
  line_datetime :: "real option"
  line_open :: "real option"
  line_high :: "real option"
  line_low :: "real option"
  line_close :: "real option"
  line_volume :: "real option"
  line_openinterest :: "real option"

definition empty_lines :: lines where
  "empty_lines =
     \<lparr>line_datetime = None, line_open = None, line_high = None, line_low = None,
      line_close = None, line_volume = None, line_openinterest = None\<rparr>"

text \<open>A streaming-pull future is a handle issued by the subscriber client.\<close>

type_synonym future = nat

record 'dt feed =
  params :: feed_params
  message_queue :: "pydict list"
  data_buffer :: "'dt bar list"
  last_bar :: "'dt bar option"
  streaming_pull_future :: "future option"
  running :: bool
  reconnect_attempts :: nat
  lines :: lines

definition init_feed :: "feed_params \<Rightarrow> 'dt feed" where
  \<comment> \<open>\<^verbatim>\<open>PubSubDataFeed.__init__\<close>; the deque's \<^verbatim>\<open>maxlen\<close> is \<open>max_buffer_size\<close>\<close>
  "init_feed ps =
     \<lparr>params = ps, message_queue = [], data_buffer = [], last_bar = None,
      streaming_pull_future = None, running = False, reconnect_attempts = 0,
      lines = empty_lines\<rparr>"

section \<open>The pull side: \<^verbatim>\<open>_load\<close>\<close>

text \<open>The three results of \<^verbatim>\<open>_load\<close>: \<open>Loaded\<close> is \<^verbatim>\<open>True\<close>, \<open>Empty\<close> is \<^verbatim>\<open>None\<close>,
  \<open>Ended\<close> is \<^verbatim>\<open>False\<close>.\<close>

datatype outcome = Loaded | Empty | Ended

definition set_lines :: "lines \<Rightarrow> real \<Rightarrow> 'dt bar \<Rightarrow> lines" where
  "set_lines ls t bar_data =
     ls\<lparr>line_datetime := Some t, line_open := Some (bar_open bar_data),
        line_high := Some (bar_high bar_data), line_low := Some (bar_low bar_data),
        line_close := Some (bar_close bar_data), line_volume := Some (bar_volume bar_data)\<rparr>"

definition load_try :: "'dt pylib \<Rightarrow> 'dt feed \<Rightarrow> 'dt feed \<times> (exn + outcome)" where
  \<comment> \<open>the body of the \<^verbatim>\<open>try\<close> block: \<^verbatim>\<open>popleft\<close>, then the line assignments\<close>
  "load_try L s =
     (case data_buffer s of
        [] \<Rightarrow> (s, Inl IndexError)
      | bar_data # rest \<Rightarrow>
          (let s1 = s\<lparr>data_buffer := rest\<rparr> in
           case date2num L (bar_datetime bar_data) of
             Inl e \<Rightarrow> (s1, Inl e)
           | Inr t \<Rightarrow> (s1\<lparr>lines := set_lines (lines s1) t bar_data\<rparr>, Inr Loaded)))"

fun load_except :: "'dt feed \<Rightarrow> exn \<Rightarrow> exn + outcome" where
  \<comment> \<open>\<^verbatim>\<open>except IndexError\<close>, then \<^verbatim>\<open>except Exception\<close>\<close>
  "load_except s IndexError = Inr (if running s then Empty else Ended)"
| "load_except s e = Inr (if running s then Empty else Ended)"

definition load :: "'dt pylib \<Rightarrow> 'dt feed \<Rightarrow> 'dt feed \<times> (exn + outcome)" where
  "load L s =
     (if \<not> running s then (s, Inr Ended)
      else if data_buffer s = [] then (s, Inr Empty)
      else (case load_try L s of
              (s', Inr r) \<Rightarrow> (s', Inr r)
            | (s', Inl e) \<Rightarrow> (s', load_except s' e)))"

section \<open>The push side: callback and drain routine\<close>

text \<open>
  A delivered Pub/Sub message is represented by what
  \<^verbatim>\<open>json.loads(message.data.decode('utf-8'))\<close> yields on its payload: \<open>Inl e\<close> when
  decoding raises, \<open>Inr v\<close> for the decoded value.  The callback answers the broker with
  \<^verbatim>\<open>message.ack()\<close> or \<^verbatim>\<open>message.nack()\<close>.
\<close>

type_synonym message = "exn + json"

datatype reply = Ack | Nack

definition pubsub_callback_try :: "'dt feed \<Rightarrow> message \<Rightarrow> 'dt feed \<times> (exn + unit)" where
  \<comment> \<open>the \<^verbatim>\<open>try\<close> block up to \<^verbatim>\<open>message.ack()\<close>; only a dict has \<^verbatim>\<open>.get\<close>\<close>
  "pubsub_callback_try s m =
     (case m of
        Inl e \<Rightarrow> (s, Inl e)
      | Inr (JObj message_data) \<Rightarrow>
          (if dict_get message_data ''symbol'' = JStr (symbol (params s))
           then (s\<lparr>message_queue := message_queue s @ [message_data]\<rparr>, Inr ())
           else (s, Inr ()))
      | Inr _ \<Rightarrow> (s, Inl AttributeError))"

definition pubsub_callback :: "'dt feed \<Rightarrow> message \<Rightarrow> 'dt feed \<times> reply" where
  "pubsub_callback s m =
     (case pubsub_callback_try s m of
        (s', Inr _) \<Rightarrow> (s', Ack)
      | (s', Inl e) \<Rightarrow> (s', Nack))"

definition required_fields :: "string list" where
  "required_fields =
     [''symbol'', ''timestamp'', ''open'', ''high'', ''low'', ''close'', ''volume'']"

definition parse_timestamp :: "'dt pylib \<Rightarrow> json \<Rightarrow> exn + 'dt" where
  "parse_timestamp L timestamp_str =
     (case timestamp_str of
        JStr str \<Rightarrow> fromisoformat L (replace_Z str)
      | _ \<Rightarrow> fromtimestamp L timestamp_str)"

definition item_float :: "'dt pylib \<Rightarrow> pydict \<Rightarrow> string \<Rightarrow> exn + real" where
  \<comment> \<open>\<^verbatim>\<open>float(message_data[k])\<close>\<close>
  "item_float L d k = bind_exn (dict_item d k) (py_float L)"

definition process_try :: "'dt pylib \<Rightarrow> pydict \<Rightarrow> exn + 'dt bar option" where
  \<comment> \<open>the \<^verbatim>\<open>try\<close> block of \<^verbatim>\<open>_process_market_data_message\<close>\<close>
  "process_try L message_data =
     (if dict_get message_data ''type'' \<noteq> JStr ''bar'' then Inr None
      else if \<not> list_all (has_key message_data) required_fields then Inr None
      else
        bind_exn (dict_item message_data ''timestamp'') (\<lambda>timestamp_str.
        bind_exn (parse_timestamp L timestamp_str) (\<lambda>dt.
        bind_exn (item_float L message_data ''open'') (\<lambda>v_open.
        bind_exn (item_float L message_data ''high'') (\<lambda>v_high.
        bind_exn (item_float L message_data ''low'') (\<lambda>v_low.
        bind_exn (item_float L message_data ''close'') (\<lambda>v_close.
        bind_exn (item_float L message_data ''volume'') (\<lambda>v_volume.
        bind_exn (dict_item message_data ''close'') (\<lambda>dflt.
        bind_exn (py_float L (dict_get_default message_data ''vwap'' dflt)) (\<lambda>v_vwap.
        Inr (Some \<lparr>bar_datetime = dt, bar_open = v_open, bar_high = v_high,
                    bar_low = v_low, bar_close = v_close, bar_volume = v_volume,
                    bar_vwap = v_vwap\<rparr>)))))))))))"

definition process_market_data_message :: "'dt pylib \<Rightarrow> pydict \<Rightarrow> 'dt bar option" where
  \<comment> \<open>\<^verbatim>\<open>except Exception\<close>: print and return \<^verbatim>\<open>None\<close>\<close>
  "process_market_data_message L message_data =
     (case process_try L message_data of Inl e \<Rightarrow> None | Inr r \<Rightarrow> r)"

definition deque_append :: "nat \<Rightarrow> 'a list \<Rightarrow> 'a \<Rightarrow> 'a list" where
  \<comment> \<open>\<^verbatim>\<open>append\<close> on a \<^verbatim>\<open>deque(maxlen=n)\<close>: add on the right, then drop the leftmost
      element when the deque is longer than \<open>n\<close>\<close>
  "deque_append n xs x = (let ys = xs @ [x] in if n < length ys then tl ys else ys)"

definition drain_iteration :: "'dt pylib \<Rightarrow> 'dt feed \<Rightarrow> 'dt feed" where
  \<comment> \<open>one turn of the loop of \<^verbatim>\<open>_process_message_queue\<close>; on an empty queue
      \<^verbatim>\<open>get\<close> raises \<^verbatim>\<open>queue.Empty\<close> after \<open>qcheck\<close> seconds and the loop continues\<close>
  "drain_iteration L s =
     (case message_queue s of
        [] \<Rightarrow> s
      | message_data # rest \<Rightarrow>
          (let s1 = s\<lparr>message_queue := rest\<rparr> in
           case process_market_data_message L message_data of
             None \<Rightarrow> s1
           | Some bar_data \<Rightarrow>
               s1\<lparr>data_buffer :=
                     deque_append (max_buffer_size (params s1)) (data_buffer s1) bar_data,
                   last_bar := Some bar_data\<rparr>))"

fun process_message_queue :: "'dt pylib \<Rightarrow> 'dt feed \<Rightarrow> nat \<Rightarrow> 'dt feed" where
  \<comment> \<open>the loop \<^verbatim>\<open>while self.running\<close>, observed for a number of turns\<close>
  "process_message_queue L s 0 = s"
| "process_message_queue L s (Suc n) =
     (if running s then process_message_queue L (drain_iteration L s) n else s)"

section \<open>Life cycle and the reconnection supervisor\<close>

text \<open>
  Calls into the Pub/Sub client are effects.  \<^verbatim>\<open>subscriber_client.subscribe\<close> either
  returns a new future or raises; its result is an input of the model.  \<open>Sleep t\<close> is
  \<^verbatim>\<open>time.sleep(t)\<close>.
\<close>

datatype effect = Sleep real | Subscribe | Cancel future | Close

definition start :: "'dt feed \<Rightarrow> exn + future \<Rightarrow> 'dt feed \<times> (exn + effect list)" where
  "start s sub =
     (let s1 = s\<lparr>running := True\<rparr> in
      case sub of
        Inl e \<Rightarrow> (s1, Inl e)
      | Inr fut \<Rightarrow> (s1\<lparr>streaming_pull_future := Some fut\<rparr>, Inr [Subscribe]))"

definition future_cancel :: "future option \<Rightarrow> exn + effect list" where
  \<comment> \<open>\<^verbatim>\<open>x.cancel()\<close>: \<^verbatim>\<open>None\<close> has no such attribute\<close>
  "future_cancel x = (case x of None \<Rightarrow> Inl AttributeError | Some fut \<Rightarrow> Inr [Cancel fut])"

definition stop :: "'dt feed \<Rightarrow> 'dt feed \<times> (exn + effect list)" where
  "stop s =
     (let s1 = s\<lparr>running := False\<rparr> in
      case (if streaming_pull_future s1 \<noteq> None
            then future_cancel (streaming_pull_future s1) else Inr []) of
        Inl e \<Rightarrow> (s1, Inl e)
      | Inr es \<Rightarrow> (s1, Inr (es @ [Close])))"

definition reconnect :: "'dt feed \<Rightarrow> exn + future \<Rightarrow> 'dt feed \<times> effect list" where
  "reconnect s sub =
     (let s1 = s\<lparr>reconnect_attempts := reconnect_attempts s + 1\<rparr>;
          es = [Sleep (reconnect_timeout (params s1)), Subscribe]
      in case sub of
           Inr fut \<Rightarrow> (s1\<lparr>streaming_pull_future := Some fut, reconnect_attempts := 0\<rparr>, es)
         | Inl e \<Rightarrow> (s1, es))"

text \<open>What \<^verbatim>\<open>self._streaming_pull_future.result(timeout=1.0)\<close> does in one turn of the
  monitor: it raises \<^verbatim>\<open>TimeoutError\<close>, returns, or raises another exception.\<close>

datatype poll = TimedOut | Returned | Raised exn

definition poll_future :: "future option \<Rightarrow> poll \<Rightarrow> poll" where
  \<comment> \<open>without a future the call itself raises\<close>
  "poll_future x pl = (case x of None \<Rightarrow> Raised AttributeError | Some fut \<Rightarrow> pl)"

definition monitor_iteration ::
    "'dt feed \<Rightarrow> poll \<Rightarrow> exn + future \<Rightarrow> 'dt feed \<times> effect list" where
  \<comment> \<open>the body of the loop of \<^verbatim>\<open>_monitor_subscription\<close>\<close>
  "monitor_iteration s pl sub =
     (case poll_future (streaming_pull_future s) pl of
        TimedOut \<Rightarrow> (s, [])
      | Returned \<Rightarrow> (s, [])
      | Raised e \<Rightarrow>
          (if running s \<and> reconnect_attempts s < max_reconnect_attempts (params s)
           then reconnect s sub
           else (s\<lparr>running := False\<rparr>, [])))"

fun monitor_subscription ::
    "'dt feed \<Rightarrow> (poll \<times> (exn + future)) list \<Rightarrow> 'dt feed \<times> effect list" where
  \<comment> \<open>the loop \<^verbatim>\<open>while self.running\<close> over what the client does in each turn; a turn that
      ends with the flag cleared is the last one\<close>
  "monitor_subscription s [] = (s, [])"
| "monitor_subscription s ((pl, sub) # evs) =
     (if running s
      then (case monitor_iteration s pl sub of
              (s1, es) \<Rightarrow>
                (case monitor_subscription s1 evs of (s2, es2) \<Rightarrow> (s2, es @ es2)))
      else (s, []))"

record status =
  st_symbol :: string
  st_buffer_size :: nat
  st_max_buffer_size :: nat
  st_last_bar_time :: "string option"
  st_running :: bool

definition get_buffer_status :: "'dt pylib \<Rightarrow> 'dt feed \<Rightarrow> status" where
  "get_buffer_status L s =
     \<lparr>st_symbol = symbol (params s), st_buffer_size = length (data_buffer s),
      st_max_buffer_size = max_buffer_size (params s),
      st_last_bar_time =
        (case last_bar s of None \<Rightarrow> None | Some b \<Rightarrow> Some (isoformat L (bar_datetime b))),
      st_running = running s\<rparr>"

section \<open>The manager\<close>

text \<open>
  A feed is an object that the manager's dict and cerebro both refer to.  Objects live in
  a store indexed by address; \<open>next_free\<close> is the address the next object gets.  The
  dict \<^verbatim>\<open>data_feeds\<close> is an association list in insertion order; assigning to a key that
  is present keeps its place (\<open>AList.update\<close>).  Cerebro is the list of the feeds given
  to \<^verbatim>\<open>adddata\<close>.
\<close>

type_synonym cerebro = "nat list"

record 'dt manager =
  mgr_project_id :: string
  data_feeds :: "(string \<times> nat) list"
  objects :: "nat \<Rightarrow> 'dt feed"
  next_free :: nat

definition init_manager :: "string \<Rightarrow> 'dt manager" where
  \<comment> \<open>\<^verbatim>\<open>MultiSymbolPubSubManager.__init__\<close>: no feed yet, and no object in the store\<close>
  "init_manager pid =
     \<lparr>mgr_project_id = pid, data_feeds = [], objects = (\<lambda>a. init_feed default_params),
      next_free = 0\<rparr>"

definition lower_char :: "char \<Rightarrow> char" where
  "lower_char c =
     (let n = (of_char c :: nat) in if 65 \<le> n \<and> n \<le> 90 then char_of (n + 32) else c)"

definition lower :: "string \<Rightarrow> string" where
  \<comment> \<open>\<^verbatim>\<open>str.lower()\<close> on ASCII text\<close>
  "lower s = map lower_char s"

definition add_market_data_feed ::
    "'dt manager \<Rightarrow> string \<Rightarrow> cerebro \<Rightarrow> string \<Rightarrow> nat \<times> 'dt manager \<times> cerebro" where
  "add_market_data_feed m symb cer tf =
     (let sub_name = ''market-data-'' @ lower symb @ ''-'' @ lower tf;
          data_feed = init_feed (default_params
             \<lparr>project_id := mgr_project_id m, subscription_name := sub_name,
              symbol := symb, timeframe := Minutes, compression := 1, feed_name := symb\<rparr>);
          a = next_free m
      in (a,
          m\<lparr>objects := (objects m)(a := data_feed), next_free := a + 1,
            data_feeds := AList.update symb a (data_feeds m)\<rparr>,
          cer @ [a]))"

fun start_feeds ::
    "(string \<Rightarrow> exn + future) \<Rightarrow> nat list \<Rightarrow> (nat \<Rightarrow> 'dt feed)
       \<Rightarrow> (nat \<Rightarrow> 'dt feed) \<times> (exn + effect list)" where
  \<comment> \<open>\<^verbatim>\<open>for feed in ...: feed.start()\<close>; the first exception ends the loop\<close>
  "start_feeds sub [] objs = (objs, Inr [])"
| "start_feeds sub (a # as) objs =
     (case start (objs a) (sub (subscription_name (params (objs a)))) of
        (f, Inl e) \<Rightarrow> (objs(a := f), Inl e)
      | (f, Inr es) \<Rightarrow>
          (case start_feeds sub as (objs(a := f)) of
             (objs', Inl e) \<Rightarrow> (objs', Inl e)
           | (objs', Inr es') \<Rightarrow> (objs', Inr (es @ es'))))"

fun stop_feeds ::
    "nat list \<Rightarrow> (nat \<Rightarrow> 'dt feed) \<Rightarrow> (nat \<Rightarrow> 'dt feed) \<times> (exn + effect list)" where
  \<comment> \<open>\<^verbatim>\<open>for feed in ...: feed.stop()\<close>\<close>
  "stop_feeds [] objs = (objs, Inr [])"
| "stop_feeds (a # as) objs =
     (case stop (objs a) of
        (f, Inl e) \<Rightarrow> (objs(a := f), Inl e)
      | (f, Inr es) \<Rightarrow>
          (case stop_feeds as (objs(a := f)) of
             (objs', Inl e) \<Rightarrow> (objs', Inl e)
           | (objs', Inr es') \<Rightarrow> (objs', Inr (es @ es'))))"

definition start_all_feeds ::
    "(string \<Rightarrow> exn + future) \<Rightarrow> 'dt manager \<Rightarrow> 'dt manager \<times> (exn + effect list)" where
  "start_all_feeds sub m =
     (case start_feeds sub (map snd (data_feeds m)) (objects m) of
        (objs, r) \<Rightarrow> (m\<lparr>objects := objs\<rparr>, r))"

definition stop_all_feeds :: "'dt manager \<Rightarrow> 'dt manager \<times> (exn + effect list)" where
  "stop_all_feeds m =
     (case stop_feeds (map snd (data_feeds m)) (objects m) of
        (objs, r) \<Rightarrow> (m\<lparr>objects := objs\<rparr>, r))"

definition get_status :: "'dt pylib \<Rightarrow> 'dt manager \<Rightarrow> (string \<times> status) list" where
  "get_status L m = map (\<lambda>(k, a). (k, get_buffer_status L (objects m a))) (data_feeds m)"

section \<open>A concrete library for the examples\<close>

text \<open>
  The examples below run the model on a small instance of the library parameters.
  A \<^verbatim>\<open>datetime\<close> is its wall-clock time in microseconds since 0001-01-01T00:00:00 and its
  UTC offset in microseconds (\<open>None\<close> for a naive value).  \<open>bt_date2num\<close> follows
  backtrader's \<^verbatim>\<open>date2num\<close>: an aware value is first moved to UTC by \<^verbatim>\<open>dt -= delta\<close>, which
  raises \<^verbatim>\<open>OverflowError\<close> when the result leaves the years 1 to 9999; the result is the
  proleptic Gregorian ordinal with the time of day as a fraction.
  \<open>utc_fromtimestamp\<close> is \<^verbatim>\<open>datetime.fromtimestamp(x, tz=timezone.utc)\<close> on a number.
  \<open>example_fromisoformat\<close> reads the one ISO string used below and rejects every other.
\<close>

record pydatetime =
  wall :: int
  utcoffset :: "int option"

definition max_wall :: int where
  "max_wall = 3652059 * 86400000000"

definition bt_date2num :: "pydatetime \<Rightarrow> exn + real" where
  "bt_date2num dt =
     (let t = (case utcoffset dt of None \<Rightarrow> wall dt | Some d \<Rightarrow> wall dt - d)
      in if t < 0 \<or> max_wall \<le> t then Inl OverflowError
         else Inr (1 + real_of_int t / 86400000000))"

definition utc_of_seconds :: "real \<Rightarrow> exn + pydatetime" where
  "utc_of_seconds r =
     (let w = 719162 * 86400000000 + round (r * 1000000)
      in if 0 \<le> w \<and> w < max_wall then Inr \<lparr>wall = w, utcoffset = Some 0\<rparr>
         else Inl OverflowError)"

definition utc_fromtimestamp :: "json \<Rightarrow> exn + pydatetime" where
  "utc_fromtimestamp v =
     (case v of
        JNum r \<Rightarrow> utc_of_seconds r
      | JInt n \<Rightarrow> utc_of_seconds (real_of_int n)
      | JBool b \<Rightarrow> utc_of_seconds (if b then 1 else 0)
      | _ \<Rightarrow> Inl TypeError)"

definition example_fromisoformat :: "string \<Rightarrow> exn + pydatetime" where
  "example_fromisoformat s =
     (if s = ''0001-01-01T00:00:00+05:00''
      then Inr \<lparr>wall = 0, utcoffset = Some 18000000000\<rparr>
      else Inl ValueError)"

definition example_lib :: "pydatetime pylib" where
  "example_lib =
     \<lparr>fromisoformat = example_fromisoformat, fromtimestamp = utc_fromtimestamp,
      float_of_str = (\<lambda>s. Inl ValueError), date2num = bt_date2num,
      isoformat = (\<lambda>dt. ''datetime'')\<rparr>"

definition epoch_bar :: "pydatetime bar" where
  "epoch_bar =
     \<lparr>bar_datetime = \<lparr>wall = 719162 * 86400000000, utcoffset = Some 0\<rparr>, bar_open = 10,
      bar_high = 12, bar_low = 9, bar_close = 11, bar_volume = 100, bar_vwap = 11\<rparr>"

definition year_one_bar :: "pydatetime bar" where
  "year_one_bar =
     \<lparr>bar_datetime = \<lparr>wall = 0, utcoffset = Some 18000000000\<rparr>, bar_open = 1, bar_high = 1,
      bar_low = 1, bar_close = 1, bar_volume = 1, bar_vwap = 1\<rparr>"

definition year_one_message :: pydict where
  "year_one_message =
     [(''type'', JStr ''bar''), (''symbol'', JStr ''AAPL''),
      (''timestamp'', JStr ''0001-01-01T00:00:00+05:00''), (''open'', JNum 1),
      (''high'', JNum 1), (''low'', JNum 1), (''close'', JNum 1), (''volume'', JNum 1)]"

definition aapl_feed :: "pydatetime feed" where
  "aapl_feed = init_feed (default_params\<lparr>symbol := ''AAPL''\<rparr>)"

text \<open>The last \<open>n\<close> elements of a list: what a ring buffer of capacity \<open>n\<close> retains.
  \<open>bar_message c\<close> is a well-formed message of the symbol AAPL with all prices \<open>c\<close>,
  stamped with epoch second 0; \<open>close_bar c\<close> is the bar the feed makes of it.\<close>

definition keep_last :: "nat \<Rightarrow> 'a list \<Rightarrow> 'a list" where
  "keep_last n xs = drop (length xs - n) xs"

definition bar_message :: "real \<Rightarrow> pydict" where
  "bar_message c =
     [(''type'', JStr ''bar''), (''symbol'', JStr ''AAPL''), (''timestamp'', JNum 0),
      (''open'', JNum c), (''high'', JNum c), (''low'', JNum c), (''close'', JNum c),
      (''volume'', JNum 1)]"

definition close_bar :: "real \<Rightarrow> pydatetime bar" where
  "close_bar c =
     \<lparr>bar_datetime = \<lparr>wall = 719162 * 86400000000, utcoffset = Some 0\<rparr>, bar_open = c,
      bar_high = c, bar_low = c, bar_close = c, bar_volume = 1, bar_vwap = c\<rparr>"

definition capacity3_feed :: "pydatetime feed" where
  "capacity3_feed =
     (init_feed (default_params\<lparr>symbol := ''AAPL'', max_buffer_size := 3\<rparr>))
       \<lparr>running := True, message_queue := map bar_message [10, 11, 12, 13]\<rparr>"

text \<open>A message without the field \<^verbatim>\<open>close\<close>, and a complete message of another symbol.\<close>

definition no_close_message :: pydict where
  "no_close_message =
     [(''type'', JStr ''bar''), (''symbol'', JStr ''AAPL''), (''timestamp'', JNum 0),
      (''open'', JNum 10), (''high'', JNum 10), (''low'', JNum 10), (''volume'', JNum 1)]"

definition msft_message :: pydict where
  "msft_message =
     [(''type'', JStr ''bar''), (''symbol'', JStr ''MSFT''), (''timestamp'', JNum 0),
      (''open'', JNum 10), (''high'', JNum 10), (''low'', JNum 10), (''close'', JNum 10),
      (''volume'', JNum 1)]"

text \<open>
  For the supervisor: \<open>started_feed\<close> is the AAPL feed after \<^verbatim>\<open>start()\<close> with the default
  parameters; a turn of the monitor is a \<open>subscription_failure\<close> when the poll of the future
  raises an exception other than the timeout and the re-subscription raises too;
  \<open>outage\<close> is such a turn.
\<close>

fun subscription_failure :: "poll \<times> (exn + future) \<Rightarrow> bool" where
  "subscription_failure (Raised e, Inl e') = True"
| "subscription_failure (pl, sub) = False"

definition started_feed :: "pydatetime feed" where
  "started_feed = fst (start aapl_feed (Inr 0))"

definition outage :: "poll \<times> (exn + future)" where
  "outage = (Raised (LibraryError ''unavailable''), Inl (LibraryError ''unavailable''))"

text \<open>For the manager: the symbol AAPL is added twice to a new manager, with an empty
  cerebro at the beginning.\<close>

definition first_add :: "nat \<times> pydatetime manager \<times> cerebro" where
  "first_add = add_market_data_feed (init_manager ''farm'') ''AAPL'' [] ''1Min''"

definition second_add :: "nat \<times> pydatetime manager \<times> cerebro" where
  "second_add =
     add_market_data_feed (fst (snd first_add)) ''AAPL'' (snd (snd first_add)) ''1Min''"

text \<open>A store in which both feeds of the symbol are running and the second one holds a
  bar; a running feed holding two bars, the oldest with a vwap of its own, whose open
  interest line was written before.\<close>

definition running_objects :: "nat \<Rightarrow> pydatetime feed" where
  "running_objects a = (if a = 0 then started_feed else started_feed\<lparr>data_buffer := [epoch_bar]\<rparr>)"

definition loaded_feed :: "pydatetime feed" where
  "loaded_feed =
     aapl_feed\<lparr>running := True, data_buffer := [(close_bar 10)\<lparr>bar_vwap := 99\<rparr>, epoch_bar],
       lines := empty_lines\<lparr>line_openinterest := Some 7\<rparr>\<rparr>"

section \<open>Properties\<close>

subsection \<open>Auxiliary facts\<close>

lemma load_except_eq: "load_except s e = Inr (if running s then Empty else Ended)"
  by (cases e) simp_all

text \<open>The bar of the year 1 used below is what the feed buffers for a well-formed message
  whose timestamp is \<^verbatim>\<open>0001-01-01T00:00:00+05:00\<close>.\<close>

lemma year_one_message_bar:
  "process_market_data_message example_lib year_one_message = Some year_one_bar"
  by (simp add: process_market_data_message_def process_try_def year_one_message_def
      year_one_bar_def dict_get_def required_fields_def has_key_def bind_exn_def
      dict_item_def parse_timestamp_def replace_Z_def example_lib_def
      example_fromisoformat_def item_float_def py_float_def dict_get_default_def)

lemma date2num_epoch_bar: "date2num example_lib (bar_datetime epoch_bar) = Inr 719163"
  by (simp add: example_lib_def bt_date2num_def epoch_bar_def max_wall_def)

lemma date2num_year_one_bar:
  "date2num example_lib (bar_datetime year_one_bar) = Inl OverflowError"
  by (simp add: example_lib_def bt_date2num_def year_one_bar_def max_wall_def)

lemma process_bar_message:
  "process_market_data_message example_lib (bar_message c) = Some (close_bar c)"
  by (simp add: process_market_data_message_def process_try_def bar_message_def
      close_bar_def dict_get_def required_fields_def has_key_def bind_exn_def
      dict_item_def parse_timestamp_def example_lib_def utc_fromtimestamp_def utc_of_seconds_def max_wall_def
      item_float_def py_float_def dict_get_default_def)

lemma length_keep_last: "length (keep_last n xs) \<le> n"
  by (simp add: keep_last_def)

lemma keep_last_id: "length xs \<le> n \<Longrightarrow> keep_last n xs = xs"
  by (simp add: keep_last_def)

lemma deque_append_keep_last:
  assumes "length xs \<le> n"
  shows "deque_append n xs x = keep_last n (xs @ [x])"
proof (cases "n < Suc (length xs)")
  case True
  with assms have "n = length xs" by simp
  then show ?thesis
    by (cases xs) (simp_all add: deque_append_def keep_last_def)
next
  case False
  then show ?thesis
    by (simp add: deque_append_def keep_last_def)
qed

lemma keep_last_append:
  "keep_last n (keep_last n xs @ ys) = keep_last n (xs @ ys)"
proof (cases "length xs \<le> n")
  case True
  then show ?thesis by (simp add: keep_last_def)
next
  case False
  then have "length xs - n + length ys = length xs + length ys - n" by simp
  with False show ?thesis
    by (simp add: keep_last_def add.commute)
qed

lemma running_drain_iteration: "running (drain_iteration L s) = running s"
  by (simp add: drain_iteration_def Let_def split: list.split option.split)

lemma params_drain_iteration: "params (drain_iteration L s) = params s"
  by (simp add: drain_iteration_def Let_def split: list.split option.split)

lemma drain_all:
  "running s \<Longrightarrow> length (data_buffer s) \<le> max_buffer_size (params s) \<Longrightarrow>
   data_buffer (process_message_queue L s k) =
     keep_last (max_buffer_size (params s))
       (data_buffer s @ List.map_filter (process_market_data_message L)
          (take k (message_queue s))) \<and>
   message_queue (process_message_queue L s k) = drop k (message_queue s)"
proof (induction k arbitrary: s)
  case 0
  then show ?case by (simp add: keep_last_id List.map_filter_simps)
next
  case (Suc k)
  show ?case
  proof (cases "message_queue s")
    case Nil
    then have "drain_iteration L s = s" by (simp add: drain_iteration_def)
    with Suc Nil show ?thesis by simp
  next
    case (Cons m q)
    show ?thesis
    proof (cases "process_market_data_message L m")
      case None
      with Cons have d: "drain_iteration L s = s\<lparr>message_queue := q\<rparr>"
        by (simp add: drain_iteration_def)
      from Suc.IH [of "s\<lparr>message_queue := q\<rparr>"] Suc.prems d Cons None show ?thesis
        by (simp add: List.map_filter_simps)
    next
      case (Some b)
      let ?n = "max_buffer_size (params s)"
      let ?s1 = "s\<lparr>message_queue := q, data_buffer := deque_append ?n (data_buffer s) b,
                    last_bar := Some b\<rparr>"
      from Cons Some have d: "drain_iteration L s = ?s1"
        by (simp add: drain_iteration_def)
      have len: "length (data_buffer ?s1) \<le> max_buffer_size (params ?s1)"
        using Suc.prems by (simp add: deque_append_keep_last length_keep_last)
      from Suc.IH [of ?s1] Suc.prems d Cons Some len show ?thesis
        by (simp add: List.map_filter_simps deque_append_keep_last keep_last_append)
    qed
  qed
qed

lemma map_filter_valid:
  "list_all (\<lambda>m. f m \<noteq> None) xs \<Longrightarrow> List.map_filter f xs = map (\<lambda>m. the (f m)) xs"
  by (induction xs) (auto simp: List.map_filter_simps)

lemma process_missing_field:
  "\<not> list_all (has_key d) required_fields \<Longrightarrow> process_market_data_message L d = None"
  by (simp add: process_market_data_message_def process_try_def)

lemma callback_object:
  "pubsub_callback s (Inr (JObj d)) =
     (if dict_get d ''symbol'' = JStr (symbol (params s))
      then (s\<lparr>message_queue := message_queue s @ [d]\<rparr>, Ack) else (s, Ack))"
  by (simp add: pubsub_callback_def pubsub_callback_try_def)

lemma callback_decode_error: "pubsub_callback s (Inl e) = (s, Nack)"
  by (simp add: pubsub_callback_def pubsub_callback_try_def)

lemma callback_not_object:
  "\<not> (\<exists>d. v = JObj d) \<Longrightarrow> pubsub_callback s (Inr v) = (s, Nack)"
  by (cases v) (auto simp: pubsub_callback_def pubsub_callback_try_def)

lemma process_vwap:
  assumes "process_market_data_message L d = Some b"
  shows "\<exists>c. dict_item d ''close'' = Inr c \<and> py_float L c = Inr (bar_close b) \<and>
             py_float L (dict_get_default d ''vwap'' c) = Inr (bar_vwap b)"
  using assms
  by (auto simp: process_market_data_message_def process_try_def bind_exn_def item_float_def
      split: if_splits sum.splits)

lemma subscription_failureD:
  "subscription_failure ev \<Longrightarrow> \<exists>e e'. ev = (Raised e, Inl e')"
  by (cases ev rule: subscription_failure.cases) simp_all

lemma poll_failure:
  "poll_future x (Raised e) = Raised (case x of None \<Rightarrow> AttributeError | Some fut \<Rightarrow> e)"
  by (simp add: poll_future_def split: option.split)

lemma monitor_failures:
  "list_all subscription_failure evs \<Longrightarrow> running s \<Longrightarrow>
   reconnect_attempts s \<le> max_reconnect_attempts (params s) \<Longrightarrow>
   monitor_subscription s evs =
     (if length evs \<le> max_reconnect_attempts (params s) - reconnect_attempts s
      then (s\<lparr>reconnect_attempts := reconnect_attempts s + length evs\<rparr>,
            concat (replicate (length evs) [Sleep (reconnect_timeout (params s)), Subscribe]))
      else (s\<lparr>reconnect_attempts := max_reconnect_attempts (params s), running := False\<rparr>,
            concat (replicate (max_reconnect_attempts (params s) - reconnect_attempts s)
              [Sleep (reconnect_timeout (params s)), Subscribe])))"
proof (induction evs arbitrary: s)
  case Nil
  then show ?case by simp
next
  case (Cons ev evs)
  from Cons.prems(1) have "subscription_failure ev" by simp
  then obtain e e' where ev: "ev = (Raised e, Inl e')"
    using subscription_failureD by blast
  from Cons.prems(1) have rest: "list_all subscription_failure evs" by simp
  show ?case
  proof (cases "reconnect_attempts s < max_reconnect_attempts (params s)")
    case True
    let ?s1 = "s\<lparr>reconnect_attempts := reconnect_attempts s + 1\<rparr>"
    from True Cons.prems(2) have it: "monitor_iteration s (Raised e) (Inl e') =
        (?s1, [Sleep (reconnect_timeout (params s)), Subscribe])"
      by (simp add: monitor_iteration_def poll_failure reconnect_def Let_def)
    from True Cons.prems(2) have "running ?s1"
      and "reconnect_attempts ?s1 \<le> max_reconnect_attempts (params ?s1)" by simp_all
    moreover from True have "max_reconnect_attempts (params s) - reconnect_attempts s =
        Suc (max_reconnect_attempts (params s) - Suc (reconnect_attempts s))" by simp
    ultimately show ?thesis
      using Cons.IH [OF rest, of ?s1] it True Cons.prems(2) ev by auto
  next
    case False
    with Cons.prems(3) have eq: "reconnect_attempts s = max_reconnect_attempts (params s)"
      by simp
    then have it: "monitor_iteration s (Raised e) (Inl e') = (s\<lparr>running := False\<rparr>, [])"
      by (simp add: monitor_iteration_def poll_failure)
    have "monitor_subscription (s\<lparr>running := False\<rparr>) evs = (s\<lparr>running := False\<rparr>, [])"
      by (cases evs) auto
    with it eq Cons.prems(2) ev show ?thesis by simp
  qed
qed

lemma monitor_stopped: "\<not> running s \<Longrightarrow> monitor_subscription s evs = (s, [])"
  by (cases evs) auto

lemma monitor_exit:
  "\<not> running (fst (monitor_subscription s evs)) \<Longrightarrow>
   monitor_subscription s (evs @ evs') = monitor_subscription s evs"
proof (induction evs arbitrary: s)
  case Nil
  then show ?case by (simp add: monitor_stopped)
next
  case (Cons ev evs)
  obtain pl sub where ev: "ev = (pl, sub)" by (cases ev)
  show ?case
  proof (cases "running s")
    case True
    obtain s1 es where it: "monitor_iteration s pl sub = (s1, es)"
      by (cases "monitor_iteration s pl sub")
    from Cons.prems True ev it have "\<not> running (fst (monitor_subscription s1 evs))"
      by (simp split: prod.splits)
    from Cons.IH [OF this] True ev it show ?thesis by simp
  next
    case False
    with ev show ?thesis by simp
  qed
qed

lemma load_stopped: "\<not> running s \<Longrightarrow> load L s = (s, Inr Ended)"
  by (simp add: load_def)

lemma stop_eq:
  "stop s =
     (s\<lparr>running := False\<rparr>,
      Inr ((case streaming_pull_future s of None \<Rightarrow> [] | Some fut \<Rightarrow> [Cancel fut]) @ [Close]))"
  by (simp add: stop_def future_cancel_def Let_def split: option.split)

lemma stop_feeds_eq:
  "\<exists>es. stop_feeds as objs =
     (\<lambda>a. if a \<in> set as then (objs a)\<lparr>running := False\<rparr> else objs a, Inr es)"
proof (induction as arbitrary: objs)
  case Nil
  then show ?case by simp
next
  case (Cons a as)
  from Cons.IH [of "objs(a := (objs a)\<lparr>running := False\<rparr>)"]
  obtain es where "stop_feeds as (objs(a := (objs a)\<lparr>running := False\<rparr>)) =
      (\<lambda>b. if b \<in> set as then ((objs(a := (objs a)\<lparr>running := False\<rparr>)) b)\<lparr>running := False\<rparr>
            else (objs(a := (objs a)\<lparr>running := False\<rparr>)) b, Inr es)" by blast
  then show ?case by (auto simp: stop_eq fun_eq_iff)
qed

lemma start_running: "running (fst (start s sub))"
  by (simp add: start_def Let_def split: sum.split)

lemma start_feeds_step:
  "fst (start_feeds sub (b # as) objs) =
     (case snd (start (objs b) (sub (subscription_name (params (objs b))))) of
        Inl e \<Rightarrow> objs(b := fst (start (objs b) (sub (subscription_name (params (objs b))))))
      | Inr es \<Rightarrow>
          fst (start_feeds sub as
            (objs(b := fst (start (objs b) (sub (subscription_name (params (objs b)))))))))"
  by (simp split: sum.split prod.split)

lemma start_feeds_other:
  "a \<notin> set as \<Longrightarrow> fst (start_feeds sub as objs) a = objs a"
proof (induction as arbitrary: objs)
  case Nil
  then show ?case by simp
next
  case (Cons b as)
  let ?f = "fst (start (objs b) (sub (subscription_name (params (objs b)))))"
  from Cons.prems have ne: "a \<noteq> b" and notin: "a \<notin> set as" by simp_all
  have "fst (start_feeds sub as (objs(b := ?f))) a = (objs(b := ?f)) a"
    by (rule Cons.IH [OF notin])
  also from ne have "\<dots> = objs a" by simp
  finally have rest: "fst (start_feeds sub as (objs(b := ?f))) a = objs a" .
  show ?case
  proof (cases "snd (start (objs b) (sub (subscription_name (params (objs b)))))")
    case (Inl e)
    with ne show ?thesis unfolding start_feeds_step by simp
  next
    case (Inr es)
    with rest show ?thesis unfolding start_feeds_step by simp
  qed
qed

lemma start_feeds_keeps_running:
  "running (objs a) \<Longrightarrow> running (fst (start_feeds sub as objs) a)"
proof (induction as arbitrary: objs)
  case Nil
  then show ?case by simp
next
  case (Cons b as)
  let ?f = "fst (start (objs b) (sub (subscription_name (params (objs b)))))"
  have "running ?f" by (rule start_running)
  with Cons.prems have run: "running ((objs(b := ?f)) a)" by simp
  have rest: "running (fst (start_feeds sub as (objs(b := ?f))) a)"
    using run by (rule Cons.IH)
  show ?case
  proof (cases "snd (start (objs b) (sub (subscription_name (params (objs b)))))")
    case (Inl e)
    with run show ?thesis unfolding start_feeds_step by simp
  next
    case (Inr es)
    with rest show ?thesis unfolding start_feeds_step by simp
  qed
qed

lemma start_feeds_result:
  "snd (start_feeds sub (b # as) objs) = Inr es \<Longrightarrow>
   (\<exists>es0. snd (start (objs b) (sub (subscription_name (params (objs b))))) = Inr es0) \<and>
   (\<exists>es1. snd (start_feeds sub as
      (objs(b := fst (start (objs b) (sub (subscription_name (params (objs b)))))))) = Inr es1)"
  by (auto split: sum.splits prod.splits)

lemma start_feeds_running:
  "snd (start_feeds sub as objs) = Inr es \<Longrightarrow> a \<in> set as \<Longrightarrow>
   running (fst (start_feeds sub as objs) a)"
proof (induction as arbitrary: objs es)
  case Nil
  then show ?case by simp
next
  case (Cons b as)
  let ?f = "fst (start (objs b) (sub (subscription_name (params (objs b)))))"
  from start_feeds_result [OF Cons.prems(1)] obtain es0 es1
    where r: "snd (start (objs b) (sub (subscription_name (params (objs b))))) = Inr es0"
      and r': "snd (start_feeds sub as (objs(b := ?f))) = Inr es1" by blast
  have step: "fst (start_feeds sub (b # as) objs) = fst (start_feeds sub as (objs(b := ?f)))"
    unfolding start_feeds_step using r by simp
  show ?case
  proof (cases "a \<in> set as")
    case True
    from r' True have "running (fst (start_feeds sub as (objs(b := ?f))) a)"
      by (rule Cons.IH)
    then show ?thesis unfolding step .
  next
    case False
    with Cons.prems(2) have "a = b" by simp
    moreover have "running ?f" by (rule start_running)
    ultimately have "running ((objs(b := ?f)) a)" by simp
    then have "running (fst (start_feeds sub as (objs(b := ?f))) a)"
      by (rule start_feeds_keeps_running)
    then show ?thesis unfolding step .
  qed
qed

lemma update_entry:
  "(k', a) \<in> set (AList.update k v al) \<Longrightarrow> (k', a) \<in> set al \<or> (k' = k \<and> a = v)"
  by (induction al) (auto split: if_splits)

lemma update_twice_values:
  "a \<in> set (map snd (AList.update k v (AList.update k v' al))) \<Longrightarrow>
   a \<in> set (map snd al) \<or> a = v"
proof -
  assume "a \<in> set (map snd (AList.update k v (AList.update k v' al)))"
  then obtain k' where "(k', a) \<in> set (AList.update k v (AList.update k v' al))" by auto
  then have "(k', a) \<in> set (AList.update k v al)" by (simp add: AList.update_last)
  from update_entry [OF this] show ?thesis by force
qed

lemma stop_all_feeds_eq:
  "\<exists>es. stop_all_feeds m =
     (m\<lparr>objects := (\<lambda>a. if a \<in> set (map snd (data_feeds m))
                           then (objects m a)\<lparr>running := False\<rparr> else objects m a)\<rparr>, Inr es)"
proof -
  from stop_feeds_eq [of "map snd (data_feeds m)" "objects m"]
  obtain es where "stop_feeds (map snd (data_feeds m)) (objects m) =
      (\<lambda>a. if a \<in> set (map snd (data_feeds m)) then (objects m a)\<lparr>running := False\<rparr>
            else objects m a, Inr es)" by blast
  then show ?thesis by (simp add: stop_all_feeds_def)
qed

lemma stop_all_feeds_objects:
  "objects (fst (stop_all_feeds m)) a =
     (if a \<in> set (map snd (data_feeds m)) then (objects m a)\<lparr>running := False\<rparr>
      else objects m a)"
proof -
  from stop_all_feeds_eq [of m] obtain es where "stop_all_feeds m =
      (m\<lparr>objects := (\<lambda>a. if a \<in> set (map snd (data_feeds m))
                            then (objects m a)\<lparr>running := False\<rparr> else objects m a)\<rparr>, Inr es)"
    by blast
  then show ?thesis by simp
qed

lemma stop_all_feeds_returns: "\<exists>es. snd (stop_all_feeds m) = Inr es"
  using stop_all_feeds_eq [of m] by auto

lemma start_all_feeds_eq:
  "start_all_feeds sub m =
     (m\<lparr>objects := fst (start_feeds sub (map snd (data_feeds m)) (objects m))\<rparr>,
      snd (start_feeds sub (map snd (data_feeds m)) (objects m)))"
  by (simp add: start_all_feeds_def case_prod_unfold)

lemma stop_repeated: "((\<lambda>s. fst (stop s)) ^^ Suc n) s = s\<lparr>running := False\<rparr>"
  by (induction n) (simp_all add: stop_eq)

lemma load_repeated:
  "\<not> running s \<Longrightarrow> ((\<lambda>s. fst (load L s)) ^^ k) s = s"
  by (induction k) (simp_all add: load_def)

lemma add_market_data_feed_eq:
  "add_market_data_feed m symb cer tf = (a, m', cer') \<Longrightarrow>
   a = next_free m \<and> next_free m' = Suc (next_free m) \<and> cer' = cer @ [a] \<and>
   data_feeds m' = AList.update symb a (data_feeds m) \<and>
   \<not> running (objects m' a)"
  by (auto simp: add_market_data_feed_def Let_def init_feed_def)

lemma load_loaded:
  assumes "snd (load L s) = Inr Loaded"
  shows "\<exists>b bs t. data_buffer s = b # bs \<and> date2num L (bar_datetime b) = Inr t \<and>
    fst (load L s) = s\<lparr>data_buffer := bs, lines := set_lines (lines s) t b\<rparr>"
proof (cases "data_buffer s")
  case Nil
  with assms show ?thesis
    by (simp add: load_def load_try_def load_except_eq split: if_splits)
next
  case (Cons b bs)
  with assms show ?thesis
    by (cases "date2num L (bar_datetime b)")
      (simp_all add: load_def load_try_def load_except_eq Let_def split: if_splits)
qed

lemma load_vwap:
  "snd (load L (s\<lparr>data_buffer := b\<lparr>bar_vwap := v\<rparr> # bs\<rparr>)) =
     snd (load L (s\<lparr>data_buffer := b # bs\<rparr>))"
  "lines (fst (load L (s\<lparr>data_buffer := b\<lparr>bar_vwap := v\<rparr> # bs\<rparr>))) =
     lines (fst (load L (s\<lparr>data_buffer := b # bs\<rparr>)))"
  "running s \<Longrightarrow>
   load L (s\<lparr>data_buffer := b\<lparr>bar_vwap := v\<rparr> # bs\<rparr>) = load L (s\<lparr>data_buffer := b # bs\<rparr>)"
  by (simp_all add: load_def load_try_def load_except_eq set_lines_def Let_def split: sum.split)

subsection \<open>C1: the result of \<^verbatim>\<open>_load\<close>\<close>

text \<open>
  Claim C1 as stated fails: a running feed with a non-empty buffer does not always return
  \<open>Loaded\<close>.  When the conversion of the oldest bar's timestamp raises, the handler
  \<^verbatim>\<open>except Exception\<close> ("skip this bar but keep running") returns \<^verbatim>\<open>None\<close>; the bar has
  already left the buffer.  The feed below is running and holds one bar, dated
  0001-01-01T00:00:00+05:00; \<^verbatim>\<open>date2num\<close> cannot move it to UTC, and \<^verbatim>\<open>_load\<close> answers
  \<open>Empty\<close> with the bar dropped.
\<close>

theorem load_nonempty_counterexample:
  "running (aapl_feed\<lparr>running := True, data_buffer := [year_one_bar]\<rparr>) \<and>
   data_buffer (aapl_feed\<lparr>running := True, data_buffer := [year_one_bar]\<rparr>) \<noteq> [] \<and>
   load example_lib (aapl_feed\<lparr>running := True, data_buffer := [year_one_bar]\<rparr>) =
     (aapl_feed\<lparr>running := True, data_buffer := []\<rparr>, Inr Empty)"
  by (simp add: load_def load_try_def load_except_eq example_lib_def bt_date2num_def
      year_one_bar_def max_wall_def aapl_feed_def init_feed_def)

text \<open>
  Claim C1, amended: the result of \<^verbatim>\<open>_load\<close> is determined by the running flag, the
  buffer and the conversion of the oldest bar's timestamp.  A feed that is not running
  returns \<open>Ended\<close> whatever the buffer holds, and is unchanged.  A running feed with an
  empty buffer returns \<open>Empty\<close>, and is unchanged.  A running feed with a non-empty buffer
  removes the oldest bar; when that bar's timestamp converts, it returns \<open>Loaded\<close> with
  the datetime line set to the converted timestamp and the open, high, low, close and
  volume lines set from the bar; when the conversion raises, it returns \<open>Empty\<close> and the
  lines are unchanged.
\<close>

theorem load_outcome:
  "(\<not> running s \<longrightarrow> load L s = (s, Inr Ended)) \<and>
   (running s \<and> data_buffer s = [] \<longrightarrow> load L s = (s, Inr Empty)) \<and>
   (running s \<and> data_buffer s = b # bs \<and> date2num L (bar_datetime b) = Inr t \<longrightarrow>
      load L s = (s\<lparr>data_buffer := bs, lines := set_lines (lines s) t b\<rparr>, Inr Loaded)) \<and>
   (running s \<and> data_buffer s = b # bs \<and> date2num L (bar_datetime b) = Inl e \<longrightarrow>
      load L s = (s\<lparr>data_buffer := bs\<rparr>, Inr Empty))"
  by (simp add: load_def load_try_def load_except_eq)

theorem load_outcome_witness:
  "\<not> running aapl_feed \<and> load example_lib aapl_feed = (aapl_feed, Inr Ended) \<and>
   running (aapl_feed\<lparr>running := True\<rparr>) \<and> data_buffer (aapl_feed\<lparr>running := True\<rparr>) = [] \<and>
   load example_lib (aapl_feed\<lparr>running := True\<rparr>) = (aapl_feed\<lparr>running := True\<rparr>, Inr Empty) \<and>
   date2num example_lib (bar_datetime epoch_bar) = Inr 719163 \<and>
   load example_lib (aapl_feed\<lparr>running := True, data_buffer := [epoch_bar, year_one_bar]\<rparr>) =
     (aapl_feed\<lparr>running := True, data_buffer := [year_one_bar],
        lines := set_lines empty_lines 719163 epoch_bar\<rparr>, Inr Loaded) \<and>
   date2num example_lib (bar_datetime year_one_bar) = Inl OverflowError \<and>
   load example_lib (aapl_feed\<lparr>running := True, data_buffer := [year_one_bar, epoch_bar]\<rparr>) =
     (aapl_feed\<lparr>running := True, data_buffer := [epoch_bar]\<rparr>, Inr Empty)"
  using load_outcome [of aapl_feed example_lib]
    load_outcome [of "aapl_feed\<lparr>running := True\<rparr>" example_lib]
    load_outcome [of "aapl_feed\<lparr>running := True, data_buffer := [epoch_bar, year_one_bar]\<rparr>"
      example_lib epoch_bar "[year_one_bar]" 719163]
    load_outcome [of "aapl_feed\<lparr>running := True, data_buffer := [year_one_bar, epoch_bar]\<rparr>"
      example_lib year_one_bar "[epoch_bar]" _ OverflowError]
    date2num_epoch_bar date2num_year_one_bar
  by (simp add: aapl_feed_def init_feed_def)

subsection \<open>C2: \<^verbatim>\<open>_load\<close> never raises\<close>

text \<open>
  Claim C2: for every library, every feed state and every buffer content, \<^verbatim>\<open>_load\<close>
  returns one of the three outcomes; no exception raised in its body (an empty deque at
  \<^verbatim>\<open>popleft\<close>, a failing conversion of the bar) leaves it.
\<close>

theorem load_never_raises: "\<exists>r. snd (load L s) = Inr r"
  by (auto simp: load_def load_try_def load_except_eq Let_def split: list.split sum.split)

subsection \<open>C3: the ring buffer\<close>

text \<open>
  Claim C3: the buffer is a deque of capacity \<open>max_buffer_size\<close> (1000 by default).
  Let a running feed whose buffer is within capacity drain messages that are all valid
  (each one yields a bar).  After any number \<open>k\<close> of turns of the drain loop the buffer
  is within capacity and holds exactly the last \<open>max_buffer_size\<close> elements of the old
  buffer followed by the bars of the first \<open>k\<close> queued messages in arrival order: on
  overflow the oldest entries are the ones evicted.
\<close>

theorem ring_buffer_drop_oldest:
  assumes "running s"
    and "length (data_buffer s) \<le> max_buffer_size (params s)"
    and "list_all (\<lambda>m. process_market_data_message L m \<noteq> None) (message_queue s)"
  shows "max_buffer_size default_params = 1000 \<and>
         length (data_buffer (process_message_queue L s k)) \<le> max_buffer_size (params s) \<and>
         data_buffer (process_message_queue L s k) =
           keep_last (max_buffer_size (params s))
             (data_buffer s @
                map (\<lambda>m. the (process_market_data_message L m)) (take k (message_queue s)))"
proof -
  have v: "list_all (\<lambda>m. process_market_data_message L m \<noteq> None) (take k (message_queue s))"
    using assms(3) by (simp add: list_all_iff) (meson in_set_takeD)
  have "data_buffer (process_message_queue L s k) =
          keep_last (max_buffer_size (params s))
            (data_buffer s @ List.map_filter (process_market_data_message L)
               (take k (message_queue s)))"
    using drain_all [OF assms(1) assms(2)] by simp
  then have e: "data_buffer (process_message_queue L s k) =
          keep_last (max_buffer_size (params s))
            (data_buffer s @
               map (\<lambda>m. the (process_market_data_message L m)) (take k (message_queue s)))"
    by (simp add: map_filter_valid [OF v])
  show ?thesis
    by (simp only: e length_keep_last) (simp add: default_params_def)
qed

text \<open>The scenario of the specification: capacity 3 and bars with closes 10, 11, 12, 13
  delivered in order leave the bars with closes 11, 12, 13.\<close>

theorem ring_buffer_drop_oldest_witness:
  "running capacity3_feed \<and>
   length (data_buffer capacity3_feed) \<le> max_buffer_size (params capacity3_feed) \<and>
   list_all (\<lambda>m. process_market_data_message example_lib m \<noteq> None)
     (message_queue capacity3_feed) \<and>
   data_buffer (process_message_queue example_lib capacity3_feed 4) =
     map close_bar [11, 12, 13]"
proof -
  have r: "running capacity3_feed"
    by (simp add: capacity3_feed_def)
  have l: "length (data_buffer capacity3_feed) \<le> max_buffer_size (params capacity3_feed)"
    by (simp add: capacity3_feed_def init_feed_def)
  have v: "list_all (\<lambda>m. process_market_data_message example_lib m \<noteq> None)
             (message_queue capacity3_feed)"
    by (simp add: capacity3_feed_def process_bar_message)
  from ring_buffer_drop_oldest [OF r l v, of 4] r l v show ?thesis
    by (simp add: capacity3_feed_def init_feed_def process_bar_message keep_last_def)
qed

subsection \<open>C4: messages with a missing field\<close>

text \<open>
  Claim C4 as stated fails in its first part: a message that decodes to a JSON object but
  lacks a required field is not negatively acknowledged.  The callback only decodes the
  payload and compares the symbol; it acknowledges every JSON object, and the required
  fields are checked later, by the drain routine, which no longer holds the message.
  The message below is bound for AAPL and has no \<^verbatim>\<open>close\<close>: the callback enqueues it and
  answers \<open>Ack\<close>.
\<close>

theorem missing_close_counterexample:
  "\<not> has_key no_close_message ''close'' \<and>
   pubsub_callback aapl_feed (Inr (JObj no_close_message)) =
     (aapl_feed\<lparr>message_queue := [no_close_message]\<rparr>, Ack)"
  by (simp add: callback_object no_close_message_def has_key_def dict_get_def aapl_feed_def
      init_feed_def default_params_def)

text \<open>
  Claim C4, amended: a delivered message whose payload decodes to a JSON object that lacks
  a required field (symbol, timestamp, open, high, low, close or volume) is acknowledged,
  not negatively acknowledged, and the callback leaves the buffer as it is.  The message
  yields no bar: when the drain routine takes it from the mailbox, the feed is otherwise
  unchanged, so the message never enters the buffer, never reaches a result of
  \<^verbatim>\<open>_load\<close>, and the buffered count is unaffected.  (Only a payload that fails to decode,
  or that decodes to something other than an object, is negatively acknowledged:
  \<open>callback_decode_error\<close>, \<open>callback_not_object\<close>.)
\<close>

theorem missing_field_message:
  assumes "\<not> list_all (has_key d) required_fields"
  shows "snd (pubsub_callback s (Inr (JObj d))) = Ack \<and>
         data_buffer (fst (pubsub_callback s (Inr (JObj d)))) = data_buffer s \<and>
         process_market_data_message L d = None \<and>
         drain_iteration L (t\<lparr>message_queue := d # q\<rparr>) = t\<lparr>message_queue := q\<rparr>"
  using assms
  by (simp add: callback_object process_missing_field drain_iteration_def)

theorem missing_field_message_witness:
  "\<not> list_all (has_key no_close_message) required_fields \<and>
   snd (pubsub_callback aapl_feed (Inr (JObj no_close_message))) = Ack \<and>
   data_buffer (fst (pubsub_callback aapl_feed (Inr (JObj no_close_message)))) = [] \<and>
   process_market_data_message example_lib no_close_message = None \<and>
   drain_iteration example_lib (aapl_feed\<lparr>message_queue := [no_close_message]\<rparr>) = aapl_feed"
proof -
  have h: "\<not> list_all (has_key no_close_message) required_fields"
    by (simp add: required_fields_def has_key_def no_close_message_def)
  from missing_field_message
      [OF h, where s = aapl_feed and L = example_lib and t = aapl_feed and q = "[]"] h show ?thesis
    by (simp add: aapl_feed_def init_feed_def)
qed

subsection \<open>C5: messages of another symbol\<close>

text \<open>
  Claim C5: a message that decodes to a JSON object whose symbol differs from the symbol
  the feed is bound to is acknowledged and dropped: the feed, with its mailbox and its
  buffer, is unchanged.
\<close>

theorem other_symbol_acknowledged:
  assumes "dict_get d ''symbol'' \<noteq> JStr (symbol (params s))"
  shows "pubsub_callback s (Inr (JObj d)) = (s, Ack)"
  using assms by (simp add: callback_object)

theorem other_symbol_acknowledged_witness:
  "dict_get msft_message ''symbol'' \<noteq> JStr (symbol (params aapl_feed)) \<and>
   pubsub_callback aapl_feed (Inr (JObj msft_message)) = (aapl_feed, Ack)"
proof -
  have h: "dict_get msft_message ''symbol'' \<noteq> JStr (symbol (params aapl_feed))"
    by (simp add: dict_get_def msft_message_def aapl_feed_def init_feed_def)
  from other_symbol_acknowledged [OF h] h show ?thesis by simp
qed

subsection \<open>C6: the limit of reconnection attempts\<close>

text \<open>
  Claim C6, as stated, says that after exactly \<^verbatim>\<open>max_reconnect_attempts\<close> (default 10)
  consecutive subscription errors without a successful re-subscription the running flag is
  cleared.  The started feed with the default parameters meets ten such errors in a row
  and is still running with ten attempts counted; \<^verbatim>\<open>_load\<close> on it reports an empty buffer of
  a live feed, not the end of the feed.
\<close>

theorem ten_errors_counterexample:
  "max_reconnect_attempts (params started_feed) = 10 \<and>
   running started_feed \<and> reconnect_attempts started_feed = 0 \<and>
   list_all subscription_failure (replicate 10 outage) \<and>
   running (fst (monitor_subscription started_feed (replicate 10 outage))) \<and>
   reconnect_attempts (fst (monitor_subscription started_feed (replicate 10 outage))) = 10 \<and>
   snd (load example_lib (fst (monitor_subscription started_feed (replicate 10 outage)))) =
     Inr Empty"
proof -
  have f: "list_all subscription_failure (replicate 10 outage)"
    by (simp add: list_all_length outage_def)
  have r: "running started_feed" "reconnect_attempts started_feed = 0"
    "max_reconnect_attempts (params started_feed) = 10" "data_buffer started_feed = []"
    by (simp_all add: started_feed_def start_def aapl_feed_def init_feed_def default_params_def)
  from monitor_failures [OF f, of started_feed] r
  have "monitor_subscription started_feed (replicate 10 outage) =
      (started_feed\<lparr>reconnect_attempts := 10\<rparr>,
       concat (replicate 10 [Sleep (reconnect_timeout (params started_feed)), Subscribe]))"
    by simp
  with f r show ?thesis by (simp add: load_def)
qed

text \<open>
  Claim C6, amended: a running feed whose attempt count is 0 makes one reconnection attempt
  for each of \<^verbatim>\<open>max_reconnect_attempts\<close> consecutive subscription errors (sleeping and
  re-subscribing each time) and is still running after them; the next error, the one
  after \<^verbatim>\<open>max_reconnect_attempts\<close> failed attempts, clears the running flag without a further
  attempt.  The loop has then ended: whatever the client does afterwards changes nothing,
  \<^verbatim>\<open>_load\<close> returns \<^verbatim>\<open>False\<close> and leaves the feed as it is, and only \<^verbatim>\<open>start()\<close> sets the
  flag again.
\<close>

theorem reconnect_limit:
  assumes "running s" and "reconnect_attempts s = 0"
    and "list_all subscription_failure evs"
    and "length evs = max_reconnect_attempts (params s)"
    and "subscription_failure ev"
  shows "running (fst (monitor_subscription s evs)) \<and>
    reconnect_attempts (fst (monitor_subscription s evs)) = max_reconnect_attempts (params s) \<and>
    snd (monitor_subscription s evs) =
      concat (replicate (max_reconnect_attempts (params s))
        [Sleep (reconnect_timeout (params s)), Subscribe]) \<and>
    \<not> running (fst (monitor_subscription s (evs @ [ev]))) \<and>
    snd (monitor_subscription s (evs @ [ev])) = snd (monitor_subscription s evs) \<and>
    monitor_subscription s (evs @ ev # evs') = monitor_subscription s (evs @ [ev]) \<and>
    load L (fst (monitor_subscription s (evs @ ev # evs'))) =
      (fst (monitor_subscription s (evs @ ev # evs')), Inr Ended) \<and>
    running (fst (start (fst (monitor_subscription s (evs @ ev # evs'))) sub))"
proof -
  let ?M = "max_reconnect_attempts (params s)"
  let ?es = "concat (replicate ?M [Sleep (reconnect_timeout (params s)), Subscribe])"
  from assms have a: "monitor_subscription s evs = (s\<lparr>reconnect_attempts := ?M\<rparr>, ?es)"
    using monitor_failures [of evs s] by simp
  from assms have all: "list_all subscription_failure (evs @ [ev])" by simp
  from assms have b: "monitor_subscription s (evs @ [ev]) =
      (s\<lparr>reconnect_attempts := ?M, running := False\<rparr>, ?es)"
    using monitor_failures [OF all, of s] by simp
  then have "\<not> running (fst (monitor_subscription s (evs @ [ev])))" by simp
  from monitor_exit [OF this, of evs']
  have c: "monitor_subscription s (evs @ ev # evs') = monitor_subscription s (evs @ [ev])"
    by simp
  from a b c assms(1) show ?thesis
    by (simp add: load_def start_def Let_def split: sum.split)
qed

theorem reconnect_limit_witness:
  "running started_feed \<and> reconnect_attempts started_feed = 0 \<and>
   list_all subscription_failure (replicate 10 outage) \<and>
   length (replicate 10 outage) = max_reconnect_attempts (params started_feed) \<and>
   subscription_failure outage \<and>
   running (fst (monitor_subscription started_feed (replicate 10 outage))) \<and>
   \<not> running (fst (monitor_subscription started_feed (replicate 10 outage @ [outage]))) \<and>
   monitor_subscription started_feed (replicate 10 outage @ outage # [(TimedOut, Inr 1)]) =
     monitor_subscription started_feed (replicate 10 outage @ [outage]) \<and>
   load example_lib (fst (monitor_subscription started_feed
       (replicate 10 outage @ outage # [(TimedOut, Inr 1)]))) =
     (fst (monitor_subscription started_feed
       (replicate 10 outage @ outage # [(TimedOut, Inr 1)])), Inr Ended)"
proof -
  have f: "list_all subscription_failure (replicate 10 outage)" "subscription_failure outage"
    by (simp_all add: list_all_length outage_def)
  have r: "running started_feed" "reconnect_attempts started_feed = 0"
    "length (replicate 10 outage) = max_reconnect_attempts (params started_feed)"
    by (simp_all add: started_feed_def start_def aapl_feed_def init_feed_def default_params_def)
  from reconnect_limit [OF r(1) r(2) f(1) r(3) f(2), where evs' = "[(TimedOut, Inr 1)]"
      and L = example_lib and sub = "Inr 1"] f r
  show ?thesis by blast
qed

subsection \<open>C7: one reconnection attempt\<close>

text \<open>
  Claim C7: when the poll of the future raises an exception other than the timeout while
  the feed is running and its attempt count is below \<^verbatim>\<open>max_reconnect_attempts\<close>
  (default 10), the monitor sleeps \<^verbatim>\<open>reconnect_timeout\<close> seconds (default 5), whatever the
  attempt count, and then subscribes again.  If the subscription succeeds the attempt
  count is 0 and the new future is kept; otherwise the attempt count has grown by one.
  The feed keeps running in both cases.
\<close>

theorem reconnect_fixed_backoff:
  assumes "running s"
    and "reconnect_attempts s < max_reconnect_attempts (params s)"
    and "poll_future (streaming_pull_future s) pl = Raised e"
  shows "snd (monitor_iteration s pl sub) = [Sleep (reconnect_timeout (params s)), Subscribe] \<and>
    fst (monitor_iteration s pl sub) =
      (case sub of
         Inr fut \<Rightarrow> s\<lparr>streaming_pull_future := Some fut, reconnect_attempts := 0\<rparr>
       | Inl e' \<Rightarrow> s\<lparr>reconnect_attempts := reconnect_attempts s + 1\<rparr>) \<and>
    running (fst (monitor_iteration s pl sub)) \<and>
    reconnect_timeout default_params = 5 \<and> max_reconnect_attempts default_params = 10"
  using assms
  by (simp add: monitor_iteration_def reconnect_def Let_def default_params_def split: sum.split)

theorem reconnect_fixed_backoff_witness:
  "running (started_feed\<lparr>reconnect_attempts := 3\<rparr>) \<and>
   reconnect_attempts (started_feed\<lparr>reconnect_attempts := 3\<rparr>) <
     max_reconnect_attempts (params (started_feed\<lparr>reconnect_attempts := 3\<rparr>)) \<and>
   poll_future (streaming_pull_future (started_feed\<lparr>reconnect_attempts := 3\<rparr>))
     (Raised (LibraryError ''unavailable'')) = Raised (LibraryError ''unavailable'') \<and>
   monitor_iteration (started_feed\<lparr>reconnect_attempts := 3\<rparr>)
     (Raised (LibraryError ''unavailable'')) (Inr 1) =
     (started_feed\<lparr>streaming_pull_future := Some 1, reconnect_attempts := 0\<rparr>,
      [Sleep 5, Subscribe]) \<and>
   monitor_iteration (started_feed\<lparr>reconnect_attempts := 3\<rparr>)
     (Raised (LibraryError ''unavailable'')) (Inl (LibraryError ''unavailable'')) =
     (started_feed\<lparr>reconnect_attempts := 4\<rparr>, [Sleep 5, Subscribe])"
proof -
  let ?s = "started_feed\<lparr>reconnect_attempts := 3\<rparr>"
  let ?e = "LibraryError ''unavailable''"
  have h: "running ?s" "reconnect_attempts ?s < max_reconnect_attempts (params ?s)"
    "poll_future (streaming_pull_future ?s) (Raised ?e) = Raised ?e"
    "reconnect_timeout (params ?s) = 5"
    by (simp_all add: started_feed_def start_def aapl_feed_def init_feed_def
        default_params_def poll_future_def)
  from reconnect_fixed_backoff [OF h(1) h(2) h(3), of "Inr 1"]
    reconnect_fixed_backoff [OF h(1) h(2) h(3), of "Inl ?e"] h
  show ?thesis by (simp add: prod_eq_iff)
qed

subsection \<open>C8: stopping\<close>

text \<open>
  Claim C8: \<^verbatim>\<open>stop()\<close> returns without an exception in every state; on a feed that was never
  started there is no future and the cancellation is skipped, so the only effect is closing
  the client.  One call or several leave the same feed, with the running flag cleared, and
  every \<^verbatim>\<open>_load\<close> after that returns \<^verbatim>\<open>False\<close>.  \<^verbatim>\<open>stop_all_feeds()\<close> returns without an
  exception as well and leaves every registered feed stopped.  The calls \<^verbatim>\<open>cancel()\<close> and
  \<^verbatim>\<open>close()\<close> of the client library are taken not to raise.
\<close>

theorem stop_safe:
  fixes s :: "'dt feed" and m :: "'dt manager"
  shows "snd (stop s) =
     Inr ((case streaming_pull_future s of None \<Rightarrow> [] | Some fut \<Rightarrow> [Cancel fut]) @ [Close]) \<and>
   snd (stop (init_feed ps :: 'dt feed)) = Inr [Close] \<and>
   ((\<lambda>s. fst (stop s)) ^^ Suc n) s = s\<lparr>running := False\<rparr> \<and>
   \<not> running (((\<lambda>s. fst (stop s)) ^^ Suc n) s) \<and>
   snd (load L (((\<lambda>s. fst (load L s)) ^^ k) (((\<lambda>s. fst (stop s)) ^^ Suc n) s))) = Inr Ended \<and>
   (\<exists>es. snd (stop_all_feeds m) = Inr es) \<and>
   list_all (\<lambda>a. \<not> running (objects (fst (stop_all_feeds m)) a)) (map snd (data_feeds m))"
proof -
  have "snd (stop (init_feed ps :: 'dt feed)) = Inr [Close]"
    by (simp add: stop_eq init_feed_def)
  moreover have "snd (load L (((\<lambda>s. fst (load L s)) ^^ k) (((\<lambda>s. fst (stop s)) ^^ Suc n) s))) =
      Inr Ended"
    unfolding stop_repeated by (simp add: load_repeated load_stopped)
  moreover have "\<exists>es. snd (stop_all_feeds m) = Inr es"
    by (rule stop_all_feeds_returns)
  moreover have
    "list_all (\<lambda>a. \<not> running (objects (fst (stop_all_feeds m)) a)) (map snd (data_feeds m))"
    unfolding list_all_iff by (simp add: stop_all_feeds_objects)
  ultimately show ?thesis
    unfolding stop_repeated by (simp add: stop_eq)
qed

theorem stop_safe_witness:
  "streaming_pull_future aapl_feed = None \<and>
   snd (stop aapl_feed) = Inr [Close] \<and>
   snd (stop started_feed) = Inr [Cancel 0, Close] \<and>
   fst (stop (fst (stop started_feed))) = fst (stop started_feed) \<and>
   snd (load example_lib (fst (stop (started_feed\<lparr>data_buffer := [epoch_bar]\<rparr>)))) = Inr Ended \<and>
   snd (stop_all_feeds (fst (snd second_add))) = Inr [Close] \<and>
   data_feeds (fst (snd second_add)) = [(''AAPL'', 1)]"
proof -
  have f: "streaming_pull_future aapl_feed = None" "streaming_pull_future started_feed = Some 0"
    by (simp_all add: started_feed_def start_def aapl_feed_def init_feed_def)
  have d: "data_feeds (fst (snd second_add)) = [(''AAPL'', 1)]"
    "streaming_pull_future (objects (fst (snd second_add)) 1) = None"
    by (simp_all add: second_add_def first_add_def add_market_data_feed_def init_manager_def
        init_feed_def Let_def)
  have a: "snd (stop_all_feeds (fst (snd second_add))) = Inr [Close]"
    using d by (simp add: stop_all_feeds_def stop_eq)
  from stop_safe [where s = aapl_feed and n = 0 and k = 0 and L = example_lib
      and m = "fst (snd second_add)" and ps = default_params] f
  have never_started: "snd (stop aapl_feed) = Inr [Close]" by simp
  from stop_safe [where s = started_feed and n = 0 and k = 0 and L = example_lib
      and m = "fst (snd second_add)" and ps = default_params] f
  have once: "snd (stop started_feed) = Inr [Cancel 0, Close]"
    "fst (stop started_feed) = started_feed\<lparr>running := False\<rparr>" by simp_all
  from stop_safe [where s = started_feed and n = 1 and k = 0 and L = example_lib
      and m = "fst (snd second_add)" and ps = default_params]
  have twice: "fst (stop (fst (stop started_feed))) = started_feed\<lparr>running := False\<rparr>"
    by simp
  from stop_safe [where s = "started_feed\<lparr>data_buffer := [epoch_bar]\<rparr>" and n = 0 and k = 0
      and L = example_lib and m = "fst (snd second_add)" and ps = default_params]
  have ended:
    "snd (load example_lib (fst (stop (started_feed\<lparr>data_buffer := [epoch_bar]\<rparr>)))) =
       Inr Ended" by (elim conjE) simp
  from never_started once twice ended f d a show ?thesis by simp
qed

subsection \<open>C9: the vwap field\<close>

text \<open>
  Claim C9: the bar made of a message stores \<^verbatim>\<open>float(message_data.get('vwap',
  message_data['close']))\<close> as its vwap, which is the close when the message has no
  \<^verbatim>\<open>vwap\<close>, and the drain routine puts that bar into the buffer.  \<^verbatim>\<open>_load\<close> does not expose
  it: when it returns \<^verbatim>\<open>True\<close> it has removed the oldest bar and written the datetime, open,
  high, low, close and volume lines from it, and nothing else of the feed has changed; the
  open interest line in particular is as before.  Its outcome and the lines it writes are
  the same whatever vwap the oldest bar carries, and so is the whole feed it leaves when
  the feed is running.
\<close>

theorem vwap_not_exposed:
  "(process_market_data_message L d = Some b \<longrightarrow>
      (\<exists>c. dict_item d ''close'' = Inr c \<and>
           py_float L (dict_get_default d ''vwap'' c) = Inr (bar_vwap b)) \<and>
      (\<not> has_key d ''vwap'' \<longrightarrow> bar_vwap b = bar_close b) \<and>
      data_buffer (drain_iteration L (s\<lparr>message_queue := d # q\<rparr>)) =
        deque_append (max_buffer_size (params s)) (data_buffer s) b) \<and>
   (snd (load L s) = Inr Loaded \<longrightarrow>
      (\<exists>b' bs' t. data_buffer s = b' # bs' \<and> date2num L (bar_datetime b') = Inr t \<and>
         fst (load L s) =
           s\<lparr>data_buffer := bs',
             lines := (lines s)\<lparr>line_datetime := Some t, line_open := Some (bar_open b'),
               line_high := Some (bar_high b'), line_low := Some (bar_low b'),
               line_close := Some (bar_close b'), line_volume := Some (bar_volume b')\<rparr>\<rparr>) \<and>
      line_openinterest (lines (fst (load L s))) = line_openinterest (lines s)) \<and>
   snd (load L (s\<lparr>data_buffer := b\<lparr>bar_vwap := v\<rparr> # bs\<rparr>)) =
     snd (load L (s\<lparr>data_buffer := b # bs\<rparr>)) \<and>
   lines (fst (load L (s\<lparr>data_buffer := b\<lparr>bar_vwap := v\<rparr> # bs\<rparr>))) =
     lines (fst (load L (s\<lparr>data_buffer := b # bs\<rparr>))) \<and>
   (running s \<longrightarrow>
      load L (s\<lparr>data_buffer := b\<lparr>bar_vwap := v\<rparr> # bs\<rparr>) =
        load L (s\<lparr>data_buffer := b # bs\<rparr>))"
proof -
  have "bar_vwap b = bar_close b"
    if "process_market_data_message L d = Some b" and "\<not> has_key d ''vwap''"
    using process_vwap [OF that(1)] that(2)
    by (auto simp: dict_get_default_def has_key_def)
  moreover have "data_buffer (drain_iteration L (s\<lparr>message_queue := d # q\<rparr>)) =
      deque_append (max_buffer_size (params s)) (data_buffer s) b"
    if "process_market_data_message L d = Some b"
    using that by (simp add: drain_iteration_def)
  moreover have "(\<exists>b' bs' t. data_buffer s = b' # bs' \<and> date2num L (bar_datetime b') = Inr t \<and>
         fst (load L s) =
           s\<lparr>data_buffer := bs',
             lines := (lines s)\<lparr>line_datetime := Some t, line_open := Some (bar_open b'),
               line_high := Some (bar_high b'), line_low := Some (bar_low b'),
               line_close := Some (bar_close b'), line_volume := Some (bar_volume b')\<rparr>\<rparr>) \<and>
      line_openinterest (lines (fst (load L s))) = line_openinterest (lines s)"
    if "snd (load L s) = Inr Loaded"
    using load_loaded [OF that] by (auto simp: set_lines_def)
  ultimately show ?thesis
    using process_vwap [of L d b]
      load_vwap [where L = L and s = s and b = b and v = v and bs = bs] by blast
qed

theorem vwap_not_exposed_witness:
  "process_market_data_message example_lib (bar_message 10) = Some (close_bar 10) \<and>
   \<not> has_key (bar_message 10) ''vwap'' \<and>
   bar_vwap (close_bar 10) = bar_close (close_bar 10) \<and>
   snd (load example_lib loaded_feed) = Inr Loaded \<and>
   bar_vwap (hd (data_buffer loaded_feed)) = 99 \<and>
   lines (fst (load example_lib loaded_feed)) =
     \<lparr>line_datetime = Some 719163, line_open = Some 10, line_high = Some 10,
      line_low = Some 10, line_close = Some 10, line_volume = Some 1,
      line_openinterest = Some 7\<rparr> \<and>
   data_buffer (fst (load example_lib loaded_feed)) = [epoch_bar] \<and>
   load example_lib (loaded_feed\<lparr>data_buffer := [(close_bar 10)\<lparr>bar_vwap := 5\<rparr>, epoch_bar]\<rparr>) =
     load example_lib (loaded_feed\<lparr>data_buffer := [close_bar 10, epoch_bar]\<rparr>)"
proof -
  have p: "process_market_data_message example_lib (bar_message 10) = Some (close_bar 10)"
    by (rule process_bar_message)
  have k: "\<not> has_key (bar_message 10) ''vwap''"
    by (simp add: has_key_def bar_message_def)
  have l: "load example_lib loaded_feed =
      (loaded_feed\<lparr>data_buffer := [epoch_bar],
         lines := \<lparr>line_datetime = Some 719163, line_open = Some 10, line_high = Some 10,
           line_low = Some 10, line_close = Some 10, line_volume = Some 1,
           line_openinterest = Some 7\<rparr>\<rparr>, Inr Loaded)"
    by (simp add: load_def load_try_def loaded_feed_def aapl_feed_def init_feed_def
        example_lib_def bt_date2num_def close_bar_def max_wall_def set_lines_def
        empty_lines_def)
  have h: "bar_vwap (hd (data_buffer loaded_feed)) = 99" "running loaded_feed"
    by (simp_all add: loaded_feed_def aapl_feed_def init_feed_def)
  from vwap_not_exposed [where L = example_lib and d = "bar_message 10" and b = "close_bar 10"
      and s = loaded_feed and v = 5 and bs = "[epoch_bar]" and q = "[]"] p k l h
  show ?thesis by simp
qed

subsection \<open>C10: adding a symbol twice\<close>

text \<open>
  Claim C10: in a manager whose registered feeds were all created before (their addresses
  are below \<open>next_free\<close>), adding the same symbol twice creates two distinct feeds, both
  given to cerebro; the dict keeps its keys and maps the symbol to the second feed, and the
  first feed is no longer a value of the dict.  Hence, whatever state the feeds are in by
  then (the store \<open>objs\<close> is arbitrary), \<^verbatim>\<open>start_all_feeds\<close> and \<^verbatim>\<open>stop_all_feeds\<close> leave the
  first feed as it is and start (when no \<^verbatim>\<open>start()\<close> raises) and stop the second, and
  \<^verbatim>\<open>get_status\<close> has the keys of the dict and reports the second feed under the symbol.
\<close>

theorem duplicate_symbol_replaces:
  assumes "\<forall>a \<in> set (map snd (data_feeds m)). a < next_free m"
    and "add_market_data_feed m symb cer tf = (a1, m1, cer1)"
    and "add_market_data_feed m1 symb cer1 tf' = (a2, m2, cer2)"
  shows "a1 \<noteq> a2 \<and> cer2 = cer @ [a1, a2] \<and>
    map_of (data_feeds m1) symb = Some a1 \<and>
    map_of (data_feeds m2) symb = Some a2 \<and>
    map fst (data_feeds m2) = map fst (data_feeds m1) \<and>
    a1 \<notin> set (map snd (data_feeds m2)) \<and>
    objects (fst (start_all_feeds sub (m2\<lparr>objects := objs\<rparr>))) a1 = objs a1 \<and>
    (\<forall>es. snd (start_all_feeds sub (m2\<lparr>objects := objs\<rparr>)) = Inr es \<longrightarrow>
       running (objects (fst (start_all_feeds sub (m2\<lparr>objects := objs\<rparr>))) a2)) \<and>
    objects (fst (stop_all_feeds (m2\<lparr>objects := objs\<rparr>))) a1 = objs a1 \<and>
    objects (fst (stop_all_feeds (m2\<lparr>objects := objs\<rparr>))) a2 = (objs a2)\<lparr>running := False\<rparr> \<and>
    map_of (get_status L (m2\<lparr>objects := objs\<rparr>)) symb = Some (get_buffer_status L (objs a2)) \<and>
    map fst (get_status L (m2\<lparr>objects := objs\<rparr>)) = map fst (data_feeds m2)"
proof -
  let ?m = "m2\<lparr>objects := objs\<rparr>"
  from add_market_data_feed_eq [OF assms(2)]
  have 1: "a1 = next_free m" "next_free m1 = Suc (next_free m)" "cer1 = cer @ [a1]"
    "data_feeds m1 = AList.update symb a1 (data_feeds m)" by simp_all
  from add_market_data_feed_eq [OF assms(3)]
  have 2: "a2 = next_free m1" "cer2 = cer1 @ [a2]"
    "data_feeds m2 = AList.update symb a2 (data_feeds m1)" by simp_all
  from 1 2 have ne: "a1 \<noteq> a2" by simp
  have out: "a1 \<notin> set (map snd (data_feeds m2))"
  proof
    assume "a1 \<in> set (map snd (data_feeds m2))"
    then have "a1 \<in> set (map snd (data_feeds m)) \<or> a1 = a2"
      unfolding 2(3) 1(4) by (rule update_twice_values)
    with ne assms(1) 1(1) show False by auto
  qed
  have inn: "a2 \<in> set (map snd (data_feeds m2))"
  proof -
    have "map_of (data_feeds m2) symb = Some a2"
      unfolding 2(3) by (simp add: AList.update_conv')
    then have "(symb, a2) \<in> set (data_feeds m2)" by (rule map_of_SomeD)
    then show ?thesis by force
  qed
  have keys: "map fst (data_feeds m2) = map fst (data_feeds m1)"
    unfolding 2(3) 1(4) by (simp add: AList.update_last AList.update_keys)
  have st1: "objects (fst (start_all_feeds sub ?m)) a1 = objs a1"
    using start_feeds_other [OF out, of sub objs]
    by (simp add: start_all_feeds_eq)
  have st2: "running (objects (fst (start_all_feeds sub ?m)) a2)"
    if "snd (start_all_feeds sub ?m) = Inr es" for es
  proof -
    from that have "snd (start_feeds sub (map snd (data_feeds m2)) objs) = Inr es"
      by (simp add: start_all_feeds_eq)
    from start_feeds_running [OF this inn] show ?thesis
      by (simp add: start_all_feeds_eq)
  qed
  from out inn
  have sp: "objects (fst (stop_all_feeds ?m)) a1 = objs a1"
    "objects (fst (stop_all_feeds ?m)) a2 = (objs a2)\<lparr>running := False\<rparr>"
    by (simp_all add: stop_all_feeds_objects)
  have gs: "map_of (get_status L ?m) symb = Some (get_buffer_status L (objs a2))"
    unfolding get_status_def by (simp add: 2(3) map_of_map AList.update_conv')
  have gk: "map fst (get_status L ?m) = map fst (data_feeds m2)"
    unfolding get_status_def by (simp add: case_prod_unfold comp_def)
  from 1 2 ne out keys st1 st2 sp gs gk show ?thesis
    by (simp add: AList.update_conv')
qed

theorem duplicate_symbol_replaces_witness:
  "data_feeds (init_manager ''farm'' :: pydatetime manager) = [] \<and>
   fst first_add = 0 \<and> fst second_add = 1 \<and> snd (snd second_add) = [0, 1] \<and>
   data_feeds (fst (snd second_add)) = [(''AAPL'', 1)] \<and>
   \<not> running (objects (fst (snd second_add)) 0) \<and>
   \<not> running (objects (fst (snd second_add)) 1) \<and>
   snd (start_all_feeds (\<lambda>n. Inr 7) (fst (snd second_add))) = Inr [Subscribe] \<and>
   \<not> running (objects (fst (start_all_feeds (\<lambda>n. Inr 7) (fst (snd second_add)))) 0) \<and>
   running (objects (fst (start_all_feeds (\<lambda>n. Inr 7) (fst (snd second_add)))) 1) \<and>
   running (running_objects 0) \<and> running (running_objects 1) \<and>
   running (objects (fst (stop_all_feeds ((fst (snd second_add))\<lparr>objects := running_objects\<rparr>))) 0) \<and>
   \<not> running
      (objects (fst (stop_all_feeds ((fst (snd second_add))\<lparr>objects := running_objects\<rparr>))) 1) \<and>
   get_status example_lib ((fst (snd second_add))\<lparr>objects := running_objects\<rparr>) =
     [(''AAPL'', \<lparr>st_symbol = ''AAPL'', st_buffer_size = 1, st_max_buffer_size = 1000,
                  st_last_bar_time = None, st_running = True\<rparr>)] \<and>
   st_buffer_size (get_buffer_status example_lib (running_objects 0)) = 0"
proof -
  let ?m2 = "fst (snd second_add)"
  have h: "\<forall>a \<in> set (map snd (data_feeds (init_manager ''farm'' :: pydatetime manager))).
      a < next_free (init_manager ''farm'' :: pydatetime manager)"
    by (simp add: init_manager_def)
  have e1: "add_market_data_feed (init_manager ''farm'') ''AAPL'' [] ''1Min'' =
      (fst first_add, fst (snd first_add), snd (snd first_add))"
    by (simp add: first_add_def)
  have e2: "add_market_data_feed (fst (snd first_add)) ''AAPL'' (snd (snd first_add)) ''1Min'' =
      (fst second_add, fst (snd second_add), snd (snd second_add))"
    by (simp add: second_add_def)
  have c: "fst first_add = 0" "fst second_add = 1"
    "data_feeds ?m2 = [(''AAPL'', 1)]"
    "\<not> running (objects ?m2 0)" "\<not> running (objects ?m2 1)"
    by (simp_all add: second_add_def first_add_def add_market_data_feed_def init_manager_def
        init_feed_def Let_def)
  have r: "running (running_objects 0)" "running (running_objects 1)"
    "get_buffer_status example_lib (running_objects 1) =
       \<lparr>st_symbol = ''AAPL'', st_buffer_size = 1, st_max_buffer_size = 1000,
        st_last_bar_time = None, st_running = True\<rparr>"
    "st_buffer_size (get_buffer_status example_lib (running_objects 0)) = 0"
    by (simp_all add: running_objects_def started_feed_def start_def aapl_feed_def
        init_feed_def default_params_def get_buffer_status_def)
  have s: "snd (start_all_feeds (\<lambda>n. Inr 7) ?m2) = Inr [Subscribe]"
    using c(3) by (simp add: start_all_feeds_eq start_def Let_def)
  have same: "?m2\<lparr>objects := objects ?m2\<rparr> = ?m2" by simp
  have g: "get_status example_lib (?m2\<lparr>objects := running_objects\<rparr>) =
      [(''AAPL'', get_buffer_status example_lib (running_objects 1))]"
    using c(3) by (simp add: get_status_def)
  from duplicate_symbol_replaces [OF h e1 e2, where sub = "\<lambda>n. Inr 7" and L = example_lib
      and objs = "objects ?m2"]
  have started: "\<not> running (objects (fst (start_all_feeds (\<lambda>n. Inr 7) ?m2)) 0)"
    "running (objects (fst (start_all_feeds (\<lambda>n. Inr 7) ?m2)) 1)"
    "snd (snd second_add) = [0, 1]"
    unfolding same using c s by simp_all
  from duplicate_symbol_replaces [OF h e1 e2, where sub = "\<lambda>n. Inr 7" and L = example_lib
      and objs = running_objects]
  have stopped:
    "running (objects (fst (stop_all_feeds (?m2\<lparr>objects := running_objects\<rparr>))) 0)"
    "\<not> running (objects (fst (stop_all_feeds (?m2\<lparr>objects := running_objects\<rparr>))) 1)"
    using c r by simp_all
  from started stopped c r s g show ?thesis
    by (simp add: init_manager_def)
qed

end
